theory Spec2Isabelle
  imports Main
begin

section \<open>The activity timeline of the research client (frontend/src/App.tsx)\<close>

text \<open>
  The component \<open>App\<close> keeps three pieces of state: the live timeline
  \<open>processedEventsTimeline\<close>, the archive \<open>historicalActivities\<close> and the ref
  \<open>hasFinalizeEventOccurredRef\<close>. Three handlers change them: \<open>onUpdateEvent\<close>
  (one call per stream event), the archiving effect (run when the messages, the loading
  flag or the timeline change) and \<open>handleSubmit\<close>. Each handler is modelled as a
  function on the state; an exception of the handler is the value \<open>Inl TypeError\<close>.
\<close>

subsection \<open>JavaScript values\<close>

text \<open>
  The stream event is declared \<open>any\<close>, so it is modelled as an untyped value, as parsed
  from JSON: an object is the list of its own properties (each name once). A number is given by
  the string that JavaScript prints for it (\<open>String(n)\<close>, for instance \<open>12\<close>, \<open>-0.5\<close>,
  \<open>1e+21\<close>): two numbers are the same value exactly when they print alike (\<open>0\<close> and
  \<open>-0\<close> both print \<open>0\<close>), and the falsy numbers are those that print \<open>0\<close> or \<open>NaN\<close>.
  A \<open>char\<close> stands for one code unit below 256.
\<close>

datatype jsval =
    JUndefined
  | JNull
  | JBool bool
  | JNum string
  | JStr string
  | JArr "jsval list"
  | JObj "(string \<times> jsval) list"

datatype js_error = TypeError

text \<open>Truthiness, as \<open>if (v)\<close>, \<open>v && w\<close>, \<open>v || w\<close> and \<open>Boolean(v)\<close> test it.\<close>

fun truthy :: "jsval \<Rightarrow> bool" where
  "truthy JUndefined = False"
| "truthy JNull = False"
| "truthy (JBool b) = b"
| "truthy (JNum n) = (n \<noteq> ''0'' \<and> n \<noteq> ''NaN'')"
| "truthy (JStr s) = (s \<noteq> [])"
| "truthy (JArr xs) = True"
| "truthy (JObj kvs) = True"

definition nullish :: "jsval \<Rightarrow> bool" where
  "nullish v = (v = JUndefined \<or> v = JNull)"

text \<open>\<open>a || b\<close>.\<close>

definition js_or :: "jsval \<Rightarrow> jsval \<Rightarrow> jsval" where
  "js_or a b = (if truthy a then a else b)"

text \<open>
  The property read \<open>v.k\<close> of a value \<open>v\<close> that is neither \<open>null\<close> nor \<open>undefined\<close>,
  for the data property names the handlers read (none of them is a property of a string,
  a number, a boolean or an array). On \<open>null\<close> and \<open>undefined\<close> the read throws: the
  handler reads a property of \<open>event\<close> itself, of the elements of the source list, and
  otherwise only of values it has just tested to be truthy; the first two are checked
  where they happen (\<open>classify\<close>, \<open>gathered_summary\<close>).
\<close>

fun member :: "jsval \<Rightarrow> string \<Rightarrow> jsval" where
  "member (JObj kvs) k = (case map_of kvs k of Some v \<Rightarrow> v | None \<Rightarrow> JUndefined)"
| "member v k = JUndefined"

text \<open>Decimal digits of a natural number, as \<open>Number.prototype.toString\<close> prints a count.\<close>

fun decimal :: "nat \<Rightarrow> string" where
  "decimal n =
     (if n < 10 then [''0123456789'' ! n]
      else decimal (n div 10) @ [''0123456789'' ! (n mod 10)])"

declare decimal.simps [simp del]

text \<open>The strings \<open>xs\<close> with \<open>sep\<close> between neighbours.\<close>

fun join_strings :: "string \<Rightarrow> string list \<Rightarrow> string" where
  "join_strings sep [] = []"
| "join_strings sep [x] = x"
| "join_strings sep (x # y # ys) = x @ sep @ join_strings sep (y # ys)"

text \<open>The strings of a list of results, or the first exception among them.\<close>

fun all_strings :: "(js_error + string) list \<Rightarrow> js_error + string list" where
  "all_strings [] = Inr []"
| "all_strings (r # rs) =
     (case r of
        Inl e \<Rightarrow> Inl e
      | Inr s \<Rightarrow> (case all_strings rs of Inl e \<Rightarrow> Inl e | Inr ss \<Rightarrow> Inr (s # ss)))"

text \<open>
  \<open>String(v)\<close>. An array prints as its elements joined by a comma, where \<open>null\<close> and
  \<open>undefined\<close> elements print as the empty string. An object prints through its
  \<open>toString\<close>: the inherited one gives \<open>[object Object]\<close>; an own property of that name
  hides it, and since no value of a parsed event is a function, the conversion then
  throws.
\<close>

fun to_string :: "jsval \<Rightarrow> js_error + string" where
  "to_string JUndefined = Inr ''undefined''"
| "to_string JNull = Inr ''null''"
| "to_string (JBool b) = Inr (if b then ''true'' else ''false'')"
| "to_string (JNum n) = Inr n"
| "to_string (JStr s) = Inr s"
| "to_string (JArr xs) =
     (case all_strings
             (map (\<lambda>x. if x = JUndefined \<or> x = JNull then Inr [] else to_string x) xs) of
        Inl e \<Rightarrow> Inl e
      | Inr ss \<Rightarrow> Inr (join_strings '','' ss))"
| "to_string (JObj kvs) =
     (if map_of kvs ''toString'' = None then Inr ''[object Object]'' else Inl TypeError)"

text \<open>
  \<open>Array.prototype.join\<close> on the elements \<open>xs\<close> of an array; it throws when the
  conversion of an element does.
\<close>

definition array_join :: "jsval list \<Rightarrow> string \<Rightarrow> js_error + string" where
  "array_join xs sep =
     (case all_strings (map (\<lambda>x. if nullish x then Inr [] else to_string x) xs) of
        Inl e \<Rightarrow> Inl e
      | Inr ss \<Rightarrow> Inr (join_strings sep ss))"

text \<open>
  The call \<open>v.join(sep)\<close> on a truthy value \<open>v\<close>: only an array has the method, any other
  value makes the call throw (\<open>v.join is not a function\<close>).
\<close>

fun join_call :: "jsval \<Rightarrow> string \<Rightarrow> js_error + string" where
  "join_call (JArr xs) sep = array_join xs sep"
| "join_call v sep = Inl TypeError"

text \<open>
  The optional call \<open>v?.join(sep)\<close>: \<open>undefined\<close> (here \<open>None\<close>) when \<open>v\<close> is \<open>null\<close> or
  \<open>undefined\<close>, the call \<open>v.join(sep)\<close> otherwise.
\<close>

fun optional_join_call :: "jsval \<Rightarrow> string \<Rightarrow> js_error + string option" where
  "optional_join_call JUndefined sep = Inr None"
| "optional_join_call JNull sep = Inr None"
| "optional_join_call (JArr xs) sep =
     (case array_join xs sep of Inl e \<Rightarrow> Inl e | Inr s \<Rightarrow> Inr (Some s))"
| "optional_join_call v sep = Inl TypeError"

text \<open>\<open>s || d\<close> for a string or \<open>undefined\<close> \<open>s\<close> and a string \<open>d\<close>.\<close>

fun or_default :: "string option \<Rightarrow> string \<Rightarrow> string" where
  "or_default None d = d"
| "or_default (Some s) d = (if s \<noteq> [] then s else d)"

text \<open>
  \<open>new Set(xs)\<close>, spread back into an array: the elements in the order of their first
  occurrence. Membership is SameValueZero: primitive values by value, objects and arrays
  by identity, and the arrays and objects of a parsed event are all different ones.
\<close>

fun same_value_zero :: "jsval \<Rightarrow> jsval \<Rightarrow> bool" where
  "same_value_zero (JArr xs) b = False"
| "same_value_zero (JObj kvs) b = False"
| "same_value_zero a b = (a = b)"

definition set_add :: "jsval list \<Rightarrow> jsval \<Rightarrow> jsval list" where
  "set_add acc x = (if list_ex (same_value_zero x) acc then acc else acc @ [x])"

definition new_Set :: "jsval list \<Rightarrow> jsval list" where
  "new_Set xs = foldl set_add [] xs"

subsection \<open>State\<close>

record processed_event =
  title :: string
  data :: string

text \<open>A message of the thread (\<open>Message\<close> of the SDK): \<open>msg_id\<close> is \<open>None\<close> when the
  message has no \<open>id\<close>.\<close>

record message =
  msg_type :: string
  content :: string
  msg_id :: "string option"

record thread =
  messages :: "message list"
  isLoading :: bool

record app_state =
  processedEventsTimeline :: "processed_event list"
  historicalActivities :: "string \<rightharpoonup> processed_event list"
  hasFinalizeEventOccurredRef :: bool

subsection \<open>onUpdateEvent\<close>

text \<open>
  Lines 65 to 75 and 118 to 128 (the same text twice): the data string of a web research
  event, from the object \<open>out\<close> that holds \<open>sources_gathered\<close>. \<open>sources.map\<close> throws when
  \<open>sources\<close> is not an array, \<open>s.label\<close> throws when an element is \<open>null\<close> or \<open>undefined\<close>,
  and \<open>join\<close> throws when a label cannot be converted to a string.
\<close>

definition gathered_summary :: "jsval \<Rightarrow> js_error + string" where
  "gathered_summary out =
     (case js_or (member out ''sources_gathered'') (JArr []) of
        JArr sources \<Rightarrow>
          if list_ex nullish sources then Inl TypeError
          else
            let numSources = length sources;
                uniqueLabels = new_Set (filter truthy (map (\<lambda>s. member s ''label'') sources))
            in case array_join (take 3 uniqueLabels) '', '' of
                 Inl e \<Rightarrow> Inl e
               | Inr exampleLabels \<Rightarrow>
                   Inr (''Gathered '' @ decimal numSources @ '' sources. Related to: '' @
                        (if exampleLabels \<noteq> [] then exampleLabels else ''N/A'') @ ''.'')
      | _ \<Rightarrow> Inl TypeError)"

text \<open>Lines 87 to 91 and 133 to 137: the data string of a reflection event.\<close>

definition reflection_data :: "jsval \<Rightarrow> js_error + string" where
  "reflection_data out =
     (if truthy (member out ''is_sufficient'')
      then Inr ''Search successful, generating final answer.''
      else case optional_join_call (member out ''follow_up_queries'') '', '' of
             Inl e \<Rightarrow> Inl e
           | Inr j \<Rightarrow>
               Inr (''Need more information, searching for '' @ or_default j ''additional info''))"

definition activity :: "string \<Rightarrow> js_error + string \<Rightarrow> js_error + (processed_event option \<times> bool)" where
  "activity t d =
     (case d of Inl e \<Rightarrow> Inl e | Inr s \<Rightarrow> Inr (Some \<lparr>title = t, data = s\<rparr>, False))"

text \<open>
  Lines 45 to 108: the traced form. The result is the value of \<open>processedEvent\<close> at
  line 109, with whether line 105 has set the ref.
\<close>

definition traced_form :: "jsval \<Rightarrow> js_error + (processed_event option \<times> bool)" where
  "traced_form event =
     (let eventType = js_or (member event ''event'') (member event ''type'');
          eventName = member event ''name'';
          eventData = member event ''data''
      in
      if eventType = JStr ''on_chain_end'' \<or> eventType = JStr ''on_chain_start'' then
        if eventName = JStr ''generate_query'' \<and> truthy eventData then
          if truthy (member eventData ''output'') \<and>
             truthy (member (member eventData ''output'') ''query_list'')
          then activity ''Generating Search Queries''
                 (join_call (member (member eventData ''output'') ''query_list'') '', '')
          else if eventType = JStr ''on_chain_start''
          then activity ''Generating Search Queries'' (Inr ''Creating search queries...'')
          else Inr (None, False)
        else if eventName = JStr ''web_research'' \<and> truthy eventData then
          if truthy (member eventData ''output'')
          then activity ''Web Research'' (gathered_summary (member eventData ''output''))
          else if eventType = JStr ''on_chain_start''
          then activity ''Web Research'' (Inr ''Searching the web...'')
          else Inr (None, False)
        else if eventName = JStr ''reflection'' \<and> truthy eventData then
          if truthy (member eventData ''output'')
          then activity ''Reflection'' (reflection_data (member eventData ''output''))
          else if eventType = JStr ''on_chain_start''
          then activity ''Reflection'' (Inr ''Analyzing gathered information...'')
          else Inr (None, False)
        else if eventName = JStr ''finalize_answer'' then
          if eventType = JStr ''on_chain_start''
          then Inr (Some \<lparr>title = ''Finalizing Answer'',
                          data = ''Composing and presenting the final answer.''\<rparr>, True)
          else Inr (None, False)
        else Inr (None, False)
      else Inr (None, False))"

text \<open>
  Lines 112 to 145: the fallback, the body of \<open>if (!processedEvent)\<close>. The result is the
  value of \<open>processedEvent\<close> at line 146, with whether line 144 has set the ref.
\<close>

definition flattened_form :: "jsval \<Rightarrow> js_error + (processed_event option \<times> bool)" where
  "flattened_form event =
     (if truthy (member event ''generate_query'') then
        case optional_join_call (member (member event ''generate_query'') ''query_list'') '', '' of
          Inl e \<Rightarrow> Inl e
        | Inr j \<Rightarrow>
            Inr (Some \<lparr>title = ''Generating Search Queries'',
                       data = or_default j ''Creating queries...''\<rparr>, False)
      else if truthy (member event ''web_research'') then
        activity ''Web Research'' (gathered_summary (member event ''web_research''))
      else if truthy (member event ''reflection'') then
        activity ''Reflection'' (reflection_data (member event ''reflection''))
      else if truthy (member event ''finalize_answer'') then
        Inr (Some \<lparr>title = ''Finalizing Answer'',
                   data = ''Composing and presenting the final answer.''\<rparr>, True)
      else Inr (None, False))"

text \<open>
  Lines 42 to 146: the activity the handler derives from an event (the specification's
  \<open>classify\<close>), with whether the handler sets the ref. Line 45 reads \<open>event.event\<close> and
  throws when \<open>event\<close> is \<open>null\<close> or \<open>undefined\<close>. The fallback runs only when the traced
  form has left \<open>processedEvent\<close> null.
\<close>

definition classify :: "jsval \<Rightarrow> js_error + (processed_event option \<times> bool)" where
  "classify event =
     (if nullish event then Inl TypeError
      else case traced_form event of
             Inl e \<Rightarrow> Inl e
           | Inr (Some p, f) \<Rightarrow> Inr (Some p, f)
           | Inr (None, f) \<Rightarrow>
               (case flattened_form event of
                  Inl e \<Rightarrow> Inl e
                | Inr (p, g) \<Rightarrow> Inr (p, f \<or> g)))"

text \<open>
  The handler (lines 39 to 155). Every exception is thrown before the handler's first
  write (the ref is set at lines 105 and 144, after the last call that can throw), so a
  handler that throws leaves the state as it was.
\<close>

definition onUpdateEvent :: "jsval \<Rightarrow> app_state \<Rightarrow> js_error + app_state" where
  "onUpdateEvent event st =
     (case classify event of
        Inl e \<Rightarrow> Inl e
      | Inr (processedEvent, f) \<Rightarrow>
          Inr (st\<lparr>hasFinalizeEventOccurredRef := (if f then True else hasFinalizeEventOccurredRef st),
                  processedEventsTimeline :=
                    (case processedEvent of
                       None \<Rightarrow> processedEventsTimeline st
                     | Some p \<Rightarrow> processedEventsTimeline st @ [p])\<rparr>))"

text \<open>
  The handler called on the events of a stream, one after the other; when a call throws,
  the result is its exception.
\<close>

fun deliver :: "jsval list \<Rightarrow> app_state \<Rightarrow> js_error + app_state" where
  "deliver [] st = Inr st"
| "deliver (event # events) st =
     (case onUpdateEvent event st of Inl e \<Rightarrow> Inl e | Inr st' \<Rightarrow> deliver events st')"

subsection \<open>The archiving effect\<close>

text \<open>Lines 169 to 185. \<open>lastMessage.id\<close> is truthy when the id is there and not empty.\<close>

definition archive_effect :: "thread \<Rightarrow> app_state \<Rightarrow> app_state" where
  "archive_effect th st =
     (if hasFinalizeEventOccurredRef st \<and> \<not> isLoading th \<and> length (messages th) > 0 then
        let lastMessage = last (messages th);
            st1 = (case msg_id lastMessage of
                     Some i \<Rightarrow>
                       if msg_type lastMessage = ''ai'' \<and> i \<noteq> []
                       then st\<lparr>historicalActivities :=
                                 (historicalActivities st)(i \<mapsto> processedEventsTimeline st)\<rparr>
                       else st
                   | None \<Rightarrow> st)
        in st1\<lparr>hasFinalizeEventOccurredRef := False\<rparr>
      else st)"

subsection \<open>handleSubmit\<close>

record agent_configuration =
  query_generator_model :: string
  reflection_model :: string
  answer_model :: string
  number_of_initial_queries :: int
  max_research_loops :: int
  enable_thinking :: "bool option"

record configurable =
  cfg_query_generator_model :: string
  cfg_reflection_model :: string
  cfg_answer_model :: string
  cfg_number_of_initial_queries :: int
  cfg_max_research_loops :: int
  cfg_enable_thinking :: bool

text \<open>
  \<open>String.prototype.trim\<close> removes white space and line terminators at both ends; below
  code unit 256 these are tab, line feed, vertical tab, form feed, carriage return, space
  and the no-break space.
\<close>

definition js_whitespace :: "char \<Rightarrow> bool" where
  "js_whitespace c = (of_char c \<in> {9, 10, 11, 12, 13, 32, 160 :: nat})"

definition trim :: "string \<Rightarrow> string" where
  "trim s = rev (dropWhile js_whitespace (rev (dropWhile js_whitespace s)))"

text \<open>What the handler does, in the order in which it does it.\<close>

datatype effect =
    SetProcessedEventsTimeline "processed_event list"
  | SetHasFinalizeEventOccurred bool
  | ThreadSubmit "message list" configurable

text \<open>
  Lines 188 to 219. \<open>now\<close> is the value of \<open>Date.now()\<close>, \<open>th\<close> the thread as the handler
  sees it.
\<close>

definition handleSubmit :: "nat \<Rightarrow> thread \<Rightarrow> string \<Rightarrow> agent_configuration \<Rightarrow> effect list" where
  "handleSubmit now th submittedInputValue config =
     (if trim submittedInputValue = [] then []
      else
        let newMessages = messages th @
              [\<lparr>msg_type = ''human'', content = submittedInputValue,
                msg_id = Some (decimal now)\<rparr>]
        in [SetProcessedEventsTimeline [],
            SetHasFinalizeEventOccurred False,
            ThreadSubmit newMessages
              \<lparr>cfg_query_generator_model = query_generator_model config,
               cfg_reflection_model = reflection_model config,
               cfg_answer_model = answer_model config,
               cfg_number_of_initial_queries = number_of_initial_queries config,
               cfg_max_research_loops = max_research_loops config,
               cfg_enable_thinking =
                 (case enable_thinking config of Some b \<Rightarrow> b | None \<Rightarrow> False)\<rparr>])"

text \<open>
  An effect on the state of the component and on the list of requests the transport has
  been given.
\<close>

fun run_effect ::
  "effect \<Rightarrow> app_state \<times> (message list \<times> configurable) list \<Rightarrow>
   app_state \<times> (message list \<times> configurable) list" where
  "run_effect (SetProcessedEventsTimeline t) (st, sent) =
     (st\<lparr>processedEventsTimeline := t\<rparr>, sent)"
| "run_effect (SetHasFinalizeEventOccurred b) (st, sent) =
     (st\<lparr>hasFinalizeEventOccurredRef := b\<rparr>, sent)"
| "run_effect (ThreadSubmit ms c) (st, sent) = (st, sent @ [(ms, c)])"

definition run_effects ::
  "effect list \<Rightarrow> app_state \<times> (message list \<times> configurable) list \<Rightarrow>
   app_state \<times> (message list \<times> configurable) list" where
  "run_effects es w = foldl (\<lambda>w e. run_effect e w) w es"

subsection \<open>Classes of events and reference functions\<close>

text \<open>
  The definitions of this subsection are not taken from the source: they name the
  events and the results that the properties below speak about.
\<close>

definition stage_names :: "string list" where
  "stage_names = [''generate_query'', ''web_research'', ''reflection'', ''finalize_answer'']"

text \<open>The marker of an event: its \<open>event\<close>, or its \<open>type\<close> when it has no \<open>event\<close>.\<close>

definition event_marker :: "jsval \<Rightarrow> jsval" where
  "event_marker event = js_or (member event ''event'') (member event ''type'')"

text \<open>
  A traced end event of a stage: the marker is \<open>on_chain_end\<close>, \<open>name\<close> is the stage, and
  \<open>data.output\<close> is there; \<open>out\<close> is that output.
\<close>

definition traced_end_event :: "jsval \<Rightarrow> string \<Rightarrow> jsval \<Rightarrow> bool" where
  "traced_end_event event stage out \<longleftrightarrow>
     event_marker event = JStr ''on_chain_end'' \<and>
     member event ''name'' = JStr stage \<and>
     truthy (member event ''data'') \<and>
     member (member event ''data'') ''output'' = out \<and> truthy out"

text \<open>A traced start event of a stage: the marker is \<open>on_chain_start\<close>, and \<open>data\<close> has no
  output yet.\<close>

definition traced_start_event :: "jsval \<Rightarrow> string \<Rightarrow> bool" where
  "traced_start_event event stage \<longleftrightarrow>
     event_marker event = JStr ''on_chain_start'' \<and>
     member event ''name'' = JStr stage \<and>
     truthy (member event ''data'') \<and>
     \<not> truthy (member (member event ''data'') ''output'')"

text \<open>
  A flattened event of a stage: it carries no start or end marker, the stage's name is
  the only one of the four stage names under which it holds data; \<open>out\<close> is that data.
\<close>

definition flattened_event :: "jsval \<Rightarrow> string \<Rightarrow> jsval \<Rightarrow> bool" where
  "flattened_event event stage out \<longleftrightarrow>
     event_marker event \<noteq> JStr ''on_chain_end'' \<and>
     event_marker event \<noteq> JStr ''on_chain_start'' \<and>
     member event stage = out \<and> truthy out \<and>
     list_all (\<lambda>s. s = stage \<or> \<not> truthy (member event s)) stage_names"

text \<open>\<open>s\<close> ends in \<open>t\<close>.\<close>

definition ends_with :: "string \<Rightarrow> string \<Rightarrow> bool" where
  "ends_with s t \<longleftrightarrow> length t \<le> length s \<and> drop (length s - length t) s = t"

text \<open>
  A source record: an object whose \<open>label\<close> is a string, \<open>null\<close> or missing. \<open>label_of\<close>
  is the text of its label, empty when it has none.
\<close>

definition source_record :: "jsval \<Rightarrow> bool" where
  "source_record s \<longleftrightarrow>
     (case s of
        JObj kvs \<Rightarrow>
          (case member s ''label'' of
             JStr l \<Rightarrow> True | JNull \<Rightarrow> True | JUndefined \<Rightarrow> True | _ \<Rightarrow> False)
      | _ \<Rightarrow> False)"

definition label_of :: "jsval \<Rightarrow> string" where
  "label_of s = (case member s ''label'' of JStr l \<Rightarrow> l | _ \<Rightarrow> [])"

text \<open>The distinct elements of a list, each at its first occurrence.\<close>

fun first_occurrences :: "string list \<Rightarrow> string list" where
  "first_occurrences [] = []"
| "first_occurrences (x # xs) = x # first_occurrences (filter (\<lambda>y. y \<noteq> x) xs)"

text \<open>
  The specification's label list of a web research result: up to three distinct,
  non-empty labels joined by a comma and a space, or \<open>N/A\<close> when there is none.
\<close>

definition related_to :: "jsval list \<Rightarrow> string" where
  "related_to sources =
     (let labels = take 3 (first_occurrences (filter (\<lambda>l. l \<noteq> []) (map label_of sources)))
      in if labels = [] then ''N/A'' else join_strings '', '' labels)"

text \<open>The activity of the finalize stage.\<close>

definition finalizing_answer :: processed_event where
  "finalizing_answer =
     \<lparr>title = ''Finalizing Answer'', data = ''Composing and presenting the final answer.''\<rparr>"

text \<open>The activities an event adds to the timeline: one, or none.\<close>

definition classified :: "jsval \<Rightarrow> processed_event list" where
  "classified event = (case classify event of Inr (Some p, f) \<Rightarrow> [p] | _ \<Rightarrow> [])"

section \<open>Properties\<close>

subsection \<open>Auxiliary facts\<close>

lemma traced_form_other_type:
  "event_marker event \<noteq> JStr ''on_chain_end'' \<Longrightarrow>
   event_marker event \<noteq> JStr ''on_chain_start'' \<Longrightarrow>
   traced_form event = Inr (None, False)"
  by (simp add: traced_form_def event_marker_def)

lemma traced_form_reflection_end:
  "traced_end_event event ''reflection'' out \<Longrightarrow>
   traced_form event = activity ''Reflection'' (reflection_data out)"
  by (simp add: traced_form_def traced_end_event_def event_marker_def)

lemma traced_form_web_research_end:
  "traced_end_event event ''web_research'' out \<Longrightarrow>
   traced_form event = activity ''Web Research'' (gathered_summary out)"
  by (simp add: traced_form_def traced_end_event_def event_marker_def)

lemma flattened_form_reflection:
  "flattened_event event ''reflection'' out \<Longrightarrow>
   flattened_form event = activity ''Reflection'' (reflection_data out)"
  by (simp add: flattened_form_def flattened_event_def stage_names_def)

lemma flattened_form_web_research:
  "flattened_event event ''web_research'' out \<Longrightarrow>
   flattened_form event = activity ''Web Research'' (gathered_summary out)"
  by (simp add: flattened_form_def flattened_event_def stage_names_def)

lemma traced_end_not_nullish: "traced_end_event event stage out \<Longrightarrow> \<not> nullish event"
  by (auto simp: traced_end_event_def event_marker_def nullish_def)

lemma flattened_not_nullish: "flattened_event event stage out \<Longrightarrow> \<not> nullish event"
  by (auto simp: flattened_event_def nullish_def)

lemma classify_traced_activity:
  "\<not> nullish event \<Longrightarrow> traced_form event = activity t (Inr d) \<Longrightarrow>
   classify event = Inr (Some \<lparr>title = t, data = d\<rparr>, False)"
  by (simp add: classify_def activity_def)

lemma classify_flattened_activity:
  "flattened_event event stage out \<Longrightarrow> flattened_form event = activity t (Inr d) \<Longrightarrow>
   classify event = Inr (Some \<lparr>title = t, data = d\<rparr>, False)"
proof -
  assume f: "flattened_event event stage out" and a: "flattened_form event = activity t (Inr d)"
  have "\<not> nullish event" using f by (rule flattened_not_nullish)
  moreover have "traced_form event = Inr (None, False)"
    using f by (simp add: flattened_event_def traced_form_other_type)
  ultimately show ?thesis using a by (simp add: classify_def activity_def)
qed

lemma reflection_data_additional_info:
  assumes "\<not> truthy (member out ''is_sufficient'')"
    and "member out ''follow_up_queries'' \<in> {JArr [], JNull, JUndefined}"
  shows "reflection_data out = Inr ''Need more information, searching for additional info''"
  using assms by (auto simp: reflection_data_def array_join_def)

lemma source_record_not_nullish: "list_all source_record sources \<Longrightarrow> \<not> list_ex nullish sources"
  by (induction sources) (auto simp: source_record_def nullish_def split: jsval.splits)

lemma truthy_labels:
  "list_all source_record sources \<Longrightarrow>
   filter truthy (map (\<lambda>s. member s ''label'') sources) =
   map JStr (filter (\<lambda>l. l \<noteq> []) (map label_of sources))"
proof (induction sources)
  case Nil
  then show ?case by simp
next
  case (Cons s sources)
  from Cons.prems have "source_record s" by simp
  then have "(truthy (member s ''label'') \<longrightarrow> member s ''label'' = JStr (label_of s))
             \<and> truthy (member s ''label'') = (label_of s \<noteq> [])"
    by (auto simp: source_record_def label_of_def split: jsval.splits)
  with Cons show ?case by auto
qed

lemma set_first_occurrences: "set (first_occurrences xs) = set xs"
  by (induction xs rule: first_occurrences.induct) auto

lemma set_add_JStr:
  "set_add (map JStr acc) (JStr x) = map JStr (if x \<in> set acc then acc else acc @ [x])"
  by (auto simp: set_add_def list_ex_iff)

text \<open>The set built from strings holds each string once, in the order of first occurrence.\<close>

lemma foldl_set_add_JStr:
  "foldl set_add (map JStr acc) (map JStr xs) =
   map JStr (acc @ first_occurrences (filter (\<lambda>y. y \<notin> set acc) xs))"
proof (induction xs arbitrary: acc)
  case Nil
  then show ?case by simp
next
  case (Cons x xs)
  show ?case
  proof (cases "x \<in> set acc")
    case True
    then show ?thesis using Cons.IH [of acc] by (simp add: set_add_JStr)
  next
    case False
    have "filter (\<lambda>y. y \<noteq> x) (filter (\<lambda>y. y \<notin> set acc) xs) =
          filter (\<lambda>y. y \<notin> set (acc @ [x])) xs"
      by (induction xs) auto
    with False show ?thesis using Cons.IH [of "acc @ [x]"] by (simp add: set_add_JStr)
  qed
qed

lemma new_Set_JStr: "new_Set (map JStr xs) = map JStr (first_occurrences xs)"
  using foldl_set_add_JStr [of "[]" xs] by (simp add: new_Set_def)

lemma all_strings_JStr:
  "all_strings (map (\<lambda>x. if nullish x then Inr [] else to_string x) (map JStr ls)) = Inr ls"
  by (induction ls) (simp_all add: nullish_def)

lemma array_join_JStr: "array_join (map JStr ls) sep = Inr (join_strings sep ls)"
  by (simp only: array_join_def all_strings_JStr sum.case)

lemma join_strings_empty:
  "\<forall>l \<in> set ls. l \<noteq> [] \<Longrightarrow> join_strings sep ls = [] \<longleftrightarrow> ls = []"
  by (induction sep ls rule: join_strings.induct) auto

lemma gathered_summary_records:
  assumes "member out ''sources_gathered'' = JArr sources"
    and "list_all source_record sources"
  shows "gathered_summary out =
           Inr (''Gathered '' @ decimal (length sources) @ '' sources. Related to: '' @
                related_to sources @ ''.'')"
proof -
  let ?labels = "take 3 (first_occurrences (filter (\<lambda>l. l \<noteq> []) (map label_of sources)))"
  have u: "take 3 (new_Set (filter truthy (map (\<lambda>s. member s ''label'') sources))) =
           map JStr ?labels"
    by (simp add: truthy_labels [OF assms(2)] new_Set_JStr take_map)
  have "\<forall>l \<in> set ?labels. l \<noteq> []"
    using set_first_occurrences [of "filter (\<lambda>l. l \<noteq> []) (map label_of sources)"]
    by (auto dest!: in_set_takeD)
  then have e: "join_strings '', '' ?labels = [] \<longleftrightarrow> ?labels = []"
    by (rule join_strings_empty)
  show ?thesis
    using assms(1) source_record_not_nullish [OF assms(2)] e
    by (simp add: gathered_summary_def js_or_def u array_join_JStr related_to_def Let_def)
qed

text \<open>The ref is set exactly when the activity is the one of the finalize stage.\<close>

lemma activity_result:
  "activity t d = Inr (r, f) \<Longrightarrow> \<not> f \<and> (\<exists>s. r = Some \<lparr>title = t, data = s\<rparr>)"
  by (auto simp: activity_def split: sum.splits)

lemma traced_form_flag:
  assumes "traced_form event = Inr (r, f)"
  shows "f \<longleftrightarrow> r = Some finalizing_answer"
    and "r = None \<or> (\<exists>p. r = Some p \<and> title p \<in> {''Generating Search Queries'', ''Web Research'', ''Reflection'', ''Finalizing Answer''})"
  using assms
  by (auto simp: traced_form_def Let_def finalizing_answer_def split: if_splits dest!: activity_result)



text \<open>The archiving effect when its conditions hold.\<close>

lemma archive_effect_archives:
  assumes "hasFinalizeEventOccurredRef st" and "\<not> isLoading th" and "messages th \<noteq> []"
    and "msg_type (last (messages th)) = ''ai''"
    and "msg_id (last (messages th)) = Some i" and "i \<noteq> []"
  shows "archive_effect th st =
           st\<lparr>historicalActivities := (historicalActivities st)(i \<mapsto> processedEventsTimeline st),
              hasFinalizeEventOccurredRef := False\<rparr>"
  using assms by (simp add: archive_effect_def)

text \<open>The timeline grows by the activities of the delivered events, in their order.\<close>

lemma onUpdateEvent_timeline:
  "onUpdateEvent event st = Inr st' \<Longrightarrow>
   processedEventsTimeline st' = processedEventsTimeline st @ classified event"
  by (auto simp: onUpdateEvent_def classified_def split: sum.splits option.splits)

lemma deliver_timeline:
  "deliver events st = Inr st' \<Longrightarrow>
   processedEventsTimeline st' = processedEventsTimeline st @ concat (map classified events)"
proof (induction events arbitrary: st)
  case Nil
  then show ?case by simp
next
  case (Cons event events)
  then obtain st1 where s: "onUpdateEvent event st = Inr st1" and d: "deliver events st1 = Inr st'"
    by (auto split: sum.splits)
  from Cons.IH [OF d] onUpdateEvent_timeline [OF s] show ?case by simp
qed

subsection \<open>The data string of a reflection that asks for more\<close>

text \<open>
  C3, as stated, fails: for the traced reflection end event with \<open>is_sufficient = false\<close>
  and \<open>follow_up_queries = []\<close> the data string is
  \<open>Need more information, searching for additional info\<close>. The template of lines 89 to
  91 (and 135 to 137) ends with the substitution, so nothing follows \<open>additional info\<close>:
  the string does not end in \<open>for additional info.\<close>
\<close>

theorem reflection_additional_info_counterexample:
  "classify (JObj [(''event'', JStr ''on_chain_end''), (''name'', JStr ''reflection''),
      (''data'', JObj [(''output'',
         JObj [(''is_sufficient'', JBool False), (''follow_up_queries'', JArr [])])])])
   = Inr (Some \<lparr>title = ''Reflection'',
                 data = ''Need more information, searching for additional info''\<rparr>, False)
   \<and> \<not> ends_with ''Need more information, searching for additional info''
            ''for additional info.''"
  by (simp add: classify_def traced_form_def nullish_def js_or_def activity_def
      reflection_data_def array_join_def ends_with_def)

text \<open>
  C3, amended: for every reflection end event (traced or flattened) whose sufficiency
  flag is false or missing and whose list of follow-up queries is empty or absent, the
  activity is \<open>Reflection\<close> with the data string
  \<open>Need more information, searching for additional info\<close>: it ends in
  \<open>for additional info\<close>, with no full stop after it.
\<close>

theorem reflection_additional_info:
  assumes "traced_end_event event ''reflection'' out \<or> flattened_event event ''reflection'' out"
    and "\<not> truthy (member out ''is_sufficient'')"
    and "member out ''follow_up_queries'' \<in> {JArr [], JNull, JUndefined}"
  shows "classify event =
           Inr (Some \<lparr>title = ''Reflection'',
                      data = ''Need more information, searching for additional info''\<rparr>, False)
         \<and> ends_with ''Need more information, searching for additional info''
             ''for additional info''"
proof -
  have d: "reflection_data out = Inr ''Need more information, searching for additional info''"
    using assms(2,3) by (rule reflection_data_additional_info)
  have e: "ends_with ''Need more information, searching for additional info''
             ''for additional info''"
    by (simp add: ends_with_def)
  from assms(1) show ?thesis
  proof
    assume t: "traced_end_event event ''reflection'' out"
    show ?thesis
      using classify_traced_activity [OF traced_end_not_nullish [OF t]]
        traced_form_reflection_end [OF t] d e by simp
  next
    assume f: "flattened_event event ''reflection'' out"
    show ?thesis
      using classify_flattened_activity [OF f] flattened_form_reflection [OF f] d e by simp
  qed
qed

text \<open>
  The amended C3 at two events: the flattened event \<open>{reflection: {is_sufficient: false}}\<close>
  (no list of follow-up queries) and the traced end event whose list is empty.
\<close>

theorem reflection_additional_info_witness:
  "classify (JObj [(''reflection'', JObj [(''is_sufficient'', JBool False)])])
   = Inr (Some \<lparr>title = ''Reflection'',
                 data = ''Need more information, searching for additional info''\<rparr>, False)
   \<and> classify (JObj [(''type'', JStr ''on_chain_end''), (''name'', JStr ''reflection''),
      (''data'', JObj [(''output'',
         JObj [(''is_sufficient'', JBool False), (''follow_up_queries'', JArr [])])])])
   = Inr (Some \<lparr>title = ''Reflection'',
                 data = ''Need more information, searching for additional info''\<rparr>, False)"
proof -
  let ?out1 = "JObj [(''is_sufficient'', JBool False)]"
  let ?out2 = "JObj [(''is_sufficient'', JBool False), (''follow_up_queries'', JArr [])]"
  let ?flat = "JObj [(''reflection'', ?out1)]"
  let ?traced = "JObj [(''type'', JStr ''on_chain_end''), (''name'', JStr ''reflection''),
      (''data'', JObj [(''output'', ?out2)])]"
  have f: "flattened_event ?flat ''reflection'' ?out1"
    by (simp add: flattened_event_def event_marker_def js_or_def stage_names_def)
  have t: "traced_end_event ?traced ''reflection'' ?out2"
    by (simp add: traced_end_event_def event_marker_def js_or_def)
  show ?thesis
    using reflection_additional_info [of ?flat ?out1, OF disjI2 [OF f]]
      reflection_additional_info [of ?traced ?out2, OF disjI1 [OF t]]
    by simp
qed

subsection \<open>The data string of a web research result\<close>

text \<open>
  C4: for every web research end event (traced or flattened) whose \<open>sources_gathered\<close>
  is a list of source records, the activity is \<open>Web Research\<close> with the data string
  \<open>Gathered N sources. Related to: L.\<close>, where \<open>N\<close> is the number of records in the list
  (duplicates and records without a label included) and \<open>L\<close> is the first three distinct
  non-empty labels joined by a comma and a space, or \<open>N/A\<close> when there is none.
\<close>

theorem web_research_gathered:
  assumes "traced_end_event event ''web_research'' out \<or>
           flattened_event event ''web_research'' out"
    and "member out ''sources_gathered'' = JArr sources"
    and "list_all source_record sources"
  shows "classify event =
           Inr (Some \<lparr>title = ''Web Research'',
                      data = ''Gathered '' @ decimal (length sources) @
                             '' sources. Related to: '' @ related_to sources @ ''.''\<rparr>, False)"
proof -
  note d = gathered_summary_records [OF assms(2,3)]
  from assms(1) show ?thesis
  proof
    assume t: "traced_end_event event ''web_research'' out"
    show ?thesis
      using classify_traced_activity [OF traced_end_not_nullish [OF t]]
        traced_form_web_research_end [OF t] d by simp
  next
    assume f: "flattened_event event ''web_research'' out"
    show ?thesis
      using classify_flattened_activity [OF f] flattened_form_web_research [OF f] d by simp
  qed
qed

text \<open>
  C4 at the sources \<open>[{label: "a"}, {label: "a"}, {label: "b"}, {label: null}]\<close>, in the
  traced and in the flattened form: \<open>Gathered 4 sources. Related to: a, b.\<close>
\<close>

theorem web_research_gathered_witness:
  "classify (JObj [(''event'', JStr ''on_chain_end''), (''name'', JStr ''web_research''),
      (''data'', JObj [(''output'', JObj [(''sources_gathered'',
          JArr [JObj [(''label'', JStr ''a'')], JObj [(''label'', JStr ''a'')],
                JObj [(''label'', JStr ''b'')], JObj [(''label'', JNull)]])])])])
   = Inr (Some \<lparr>title = ''Web Research'',
                 data = ''Gathered 4 sources. Related to: a, b.''\<rparr>, False)
   \<and> classify (JObj [(''web_research'', JObj [(''sources_gathered'',
          JArr [JObj [(''label'', JStr ''a'')], JObj [(''label'', JStr ''a'')],
                JObj [(''label'', JStr ''b'')], JObj [(''label'', JNull)]])])])
   = Inr (Some \<lparr>title = ''Web Research'',
                 data = ''Gathered 4 sources. Related to: a, b.''\<rparr>, False)"
proof -
  let ?srcs = "[JObj [(''label'', JStr ''a'')], JObj [(''label'', JStr ''a'')],
                JObj [(''label'', JStr ''b'')], JObj [(''label'', JNull)]]"
  let ?out = "JObj [(''sources_gathered'', JArr ?srcs)]"
  let ?traced = "JObj [(''event'', JStr ''on_chain_end''), (''name'', JStr ''web_research''),
      (''data'', JObj [(''output'', ?out)])]"
  let ?flat = "JObj [(''web_research'', ?out)]"
  have r: "list_all source_record ?srcs"
    by (simp add: source_record_def)
  have m: "member ?out ''sources_gathered'' = JArr ?srcs"
    by simp
  have t: "traced_end_event ?traced ''web_research'' ?out"
    by (simp add: traced_end_event_def event_marker_def js_or_def)
  have f: "flattened_event ?flat ''web_research'' ?out"
    by (simp add: flattened_event_def event_marker_def js_or_def stage_names_def)
  have v: "''Gathered '' @ decimal (length ?srcs) @ '' sources. Related to: '' @
           related_to ?srcs @ ''.'' = ''Gathered 4 sources. Related to: a, b.''"
    by (simp add: decimal.simps related_to_def label_of_def)
  show ?thesis
    using web_research_gathered [of ?traced ?out ?srcs, OF disjI1 [OF t] m r]
      web_research_gathered [of ?flat ?out ?srcs, OF disjI2 [OF f] m r]
    unfolding v by simp
qed

subsection \<open>The placeholder of a flattened query event\<close>

text \<open>
  C10: for every flattened event whose \<open>generate_query\<close> entry has an empty or absent
  \<open>query_list\<close>, the activity is \<open>Generating Search Queries\<close> with the placeholder
  \<open>Creating queries...\<close>; the traced start event of the same stage gives the different
  text \<open>Creating search queries...\<close>
\<close>

theorem flattened_generate_query_placeholder:
  assumes "flattened_event event ''generate_query'' out"
    and "member out ''query_list'' \<in> {JArr [], JNull, JUndefined}"
  shows "classify event =
           Inr (Some \<lparr>title = ''Generating Search Queries'', data = ''Creating queries...''\<rparr>, False)
       \<and> (traced_start_event start ''generate_query'' \<longrightarrow>
            classify start =
              Inr (Some \<lparr>title = ''Generating Search Queries'',
                         data = ''Creating search queries...''\<rparr>, False)
            \<and> classify start \<noteq> classify event)"
proof -
  have n: "\<not> nullish event" using assms(1) by (rule flattened_not_nullish)
  have t: "traced_form event = Inr (None, False)"
    using assms(1) by (simp add: flattened_event_def traced_form_other_type)
  have f: "flattened_form event =
        Inr (Some \<lparr>title = ''Generating Search Queries'', data = ''Creating queries...''\<rparr>, False)"
    using assms by (auto simp: flattened_form_def flattened_event_def array_join_def)
  have c: "classify event =
           Inr (Some \<lparr>title = ''Generating Search Queries'', data = ''Creating queries...''\<rparr>, False)"
    using n t f by (simp add: classify_def)
  have s: "classify start =
              Inr (Some \<lparr>title = ''Generating Search Queries'',
                         data = ''Creating search queries...''\<rparr>, False)"
    if a: "traced_start_event start ''generate_query''"
  proof -
    from a have "\<not> nullish start"
      by (auto simp: traced_start_event_def event_marker_def nullish_def)
    moreover from a have "traced_form start =
        Inr (Some \<lparr>title = ''Generating Search Queries'',
                         data = ''Creating search queries...''\<rparr>, False)"
      by (simp add: traced_form_def traced_start_event_def event_marker_def activity_def)
    ultimately show ?thesis by (simp add: classify_def)
  qed
  show ?thesis using c s by simp
qed

text \<open>
  C10 at \<open>{generate_query: {query_list: []}}\<close> and at a \<open>generate_query\<close> entry
  without \<open>query_list\<close>, beside the traced start event.
\<close>

theorem flattened_generate_query_placeholder_witness:
  "classify (JObj [(''generate_query'', JObj [(''query_list'', JArr [])])])
   = Inr (Some \<lparr>title = ''Generating Search Queries'', data = ''Creating queries...''\<rparr>, False)
   \<and> classify (JObj [(''generate_query'', JObj [(''other'', JNum ''1'')])])
   = Inr (Some \<lparr>title = ''Generating Search Queries'', data = ''Creating queries...''\<rparr>, False)
   \<and> classify (JObj [(''event'', JStr ''on_chain_start''), (''name'', JStr ''generate_query''),
                     (''data'', JObj [(''input'', JObj [])])])
   = Inr (Some \<lparr>title = ''Generating Search Queries'',
                 data = ''Creating search queries...''\<rparr>, False)"
proof -
  let ?o1 = "JObj [(''query_list'', JArr [])]"
  let ?o2 = "JObj [(''other'', JNum ''1'')]"
  let ?e1 = "JObj [(''generate_query'', ?o1)]"
  let ?e2 = "JObj [(''generate_query'', ?o2)]"
  let ?s = "JObj [(''event'', JStr ''on_chain_start''), (''name'', JStr ''generate_query''),
                     (''data'', JObj [(''input'', JObj [])])]"
  have f1: "flattened_event ?e1 ''generate_query'' ?o1"
    by (simp add: flattened_event_def event_marker_def js_or_def stage_names_def)
  have f2: "flattened_event ?e2 ''generate_query'' ?o2"
    by (simp add: flattened_event_def event_marker_def js_or_def stage_names_def)
  have s: "traced_start_event ?s ''generate_query''"
    by (simp add: traced_start_event_def event_marker_def js_or_def)
  show ?thesis
    using flattened_generate_query_placeholder [OF f1, where start = ?s]
      flattened_generate_query_placeholder [OF f2, where start = ?s] s
    by simp
qed

subsection \<open>Events that are not recognised\<close>

text \<open>
  C5, as stated, fails: the event is declared \<open>any\<close>, and on \<open>null\<close> and on \<open>undefined\<close>,
  which have neither form and name no stage, the handler throws at its first property
  read (line 45) instead of returning without an activity.
\<close>

theorem unrecognized_event_dropped_counterexample:
  "classify JNull = Inl TypeError
   \<and> classify JUndefined = Inl TypeError
   \<and> onUpdateEvent JNull
       \<lparr>processedEventsTimeline = [], historicalActivities = Map.empty,
        hasFinalizeEventOccurredRef = False\<rparr> = Inl TypeError
   \<and> onUpdateEvent JUndefined
       \<lparr>processedEventsTimeline = [], historicalActivities = Map.empty,
        hasFinalizeEventOccurredRef = False\<rparr> = Inl TypeError"
  by (simp add: classify_def onUpdateEvent_def nullish_def)

text \<open>
  C5, amended: an event other than \<open>null\<close> and \<open>undefined\<close> (any value with properties)
  that is not a traced start or end event of one of the four stages and holds no data
  under any of the four stage names yields no activity: the handler does not throw, and
  it leaves the timeline, the ref and the archive as they are.
\<close>

theorem unrecognized_event_dropped:
  assumes "\<not> nullish event"
    and "(event_marker event \<noteq> JStr ''on_chain_end'' \<and> event_marker event \<noteq> JStr ''on_chain_start'')
         \<or> (\<forall>s \<in> set stage_names. member event ''name'' \<noteq> JStr s)"
    and "\<forall>s \<in> set stage_names. \<not> truthy (member event s)"
  shows "classify event = Inr (None, False) \<and> onUpdateEvent event st = Inr st"
proof -
  have t: "traced_form event = Inr (None, False)"
    using assms(2) by (auto simp: traced_form_def event_marker_def stage_names_def Let_def)
  have f: "flattened_form event = Inr (None, False)"
    using assms(3) by (simp add: flattened_form_def stage_names_def)
  have c: "classify event = Inr (None, False)"
    using assms(1) t f by (simp add: classify_def)
  then show ?thesis by (simp add: onUpdateEvent_def)
qed

text \<open>
  C5, amended, at a traced end event of an unknown node (whose output would make a
  recognised stage throw) and at a flattened event of an unknown node.
\<close>

theorem unrecognized_event_dropped_witness:
  "classify (JObj [(''event'', JStr ''on_chain_end''), (''name'', JStr ''route''),
                   (''data'', JObj [(''output'', JObj [(''query_list'', JNum ''5'')])])])
   = Inr (None, False)
   \<and> onUpdateEvent (JObj [(''custom_node'', JObj [(''x'', JNum ''1'')])])
       \<lparr>processedEventsTimeline = [\<lparr>title = ''A'', data = ''a''\<rparr>],
        historicalActivities = Map.empty, hasFinalizeEventOccurredRef = False\<rparr>
     = Inr \<lparr>processedEventsTimeline = [\<lparr>title = ''A'', data = ''a''\<rparr>],
        historicalActivities = Map.empty, hasFinalizeEventOccurredRef = False\<rparr>"
  using unrecognized_event_dropped [of
      "JObj [(''event'', JStr ''on_chain_end''), (''name'', JStr ''route''),
             (''data'', JObj [(''output'', JObj [(''query_list'', JNum ''5'')])])]"]
    unrecognized_event_dropped [of "JObj [(''custom_node'', JObj [(''x'', JNum ''1'')])]"
      "\<lparr>processedEventsTimeline = [\<lparr>title = ''A'', data = ''a''\<rparr>],
        historicalActivities = Map.empty, hasFinalizeEventOccurredRef = False\<rparr>"]
  by (simp add: nullish_def event_marker_def js_or_def stage_names_def)

subsection \<open>The terminal flag\<close>



subsection \<open>Precedence of the traced form\<close>

text \<open>
  C7: when the traced form yields an activity, that activity is the result, whatever
  the event holds under the stage names; the flattened form decides only when the traced
  form yields none. An exception of the traced form is the handler's.
\<close>

theorem traced_form_precedence:
  assumes "\<not> nullish event"
  shows "(traced_form event = Inr (Some p, f) \<longrightarrow> classify event = Inr (Some p, f))
       \<and> (traced_form event = Inr (None, f) \<longrightarrow> classify event = flattened_form event)
       \<and> (traced_form event = Inl e \<longrightarrow> classify event = Inl e)"
proof (intro conjI impI)
  assume "traced_form event = Inr (Some p, f)"
  with assms show "classify event = Inr (Some p, f)" by (simp add: classify_def)
next
  assume t: "traced_form event = Inr (None, f)"
  then have "\<not> f" using traced_form_flag(1) by blast
  with assms t show "classify event = flattened_form event"
    by (simp add: classify_def split: sum.splits)
next
  assume "traced_form event = Inl e"
  with assms show "classify event = Inl e" by (simp add: classify_def)
qed

text \<open>
  C7 at an event that matches both forms: a traced \<open>generate_query\<close> end event that
  also holds \<open>web_research\<close> data.
\<close>

theorem traced_form_precedence_witness:
  "flattened_form
     (JObj [(''event'', JStr ''on_chain_end''), (''name'', JStr ''generate_query''),
            (''data'', JObj [(''output'', JObj [(''query_list'', JArr [JStr ''q1'', JStr ''q2''])])]),
            (''web_research'', JObj [(''sources_gathered'', JArr [])])])
   = Inr (Some \<lparr>title = ''Web Research'', data = ''Gathered 0 sources. Related to: N/A.''\<rparr>, False)
   \<and> classify
     (JObj [(''event'', JStr ''on_chain_end''), (''name'', JStr ''generate_query''),
            (''data'', JObj [(''output'', JObj [(''query_list'', JArr [JStr ''q1'', JStr ''q2''])])]),
            (''web_research'', JObj [(''sources_gathered'', JArr [])])])
   = Inr (Some \<lparr>title = ''Generating Search Queries'', data = ''q1, q2''\<rparr>, False)"
proof -
  let ?ev = "JObj [(''event'', JStr ''on_chain_end''), (''name'', JStr ''generate_query''),
            (''data'', JObj [(''output'', JObj [(''query_list'', JArr [JStr ''q1'', JStr ''q2''])])]),
            (''web_research'', JObj [(''sources_gathered'', JArr [])])]"
  have t: "traced_form ?ev = Inr (Some \<lparr>title = ''Generating Search Queries'', data = ''q1, q2''\<rparr>, False)"
    by (simp add: traced_form_def js_or_def activity_def array_join_def nullish_def)
  have n: "\<not> nullish ?ev" by (simp add: nullish_def)
  have f: "flattened_form ?ev = Inr (Some \<lparr>title = ''Web Research'', data = ''Gathered 0 sources. Related to: N/A.''\<rparr>, False)"
    by (simp add: flattened_form_def activity_def gathered_summary_def js_or_def new_Set_def
        array_join_def decimal.simps)
  show ?thesis
    using traced_form_precedence [OF n, of "\<lparr>title = ''Generating Search Queries'', data = ''q1, q2''\<rparr>" False] t f
    by simp
qed

subsection \<open>The archiving effect\<close>

text \<open>
  C1, as stated, fails: with the ref set, loading over and the last message an agent
  message with id \<open>m1\<close>, the effect leaves the timeline \<open>[A, B]\<close> as it is. Lines 178
  to 183 write the archive and the ref only; the timeline is emptied by \<open>handleSubmit\<close>.
\<close>

theorem archive_success_counterexample:
  "processedEventsTimeline
     (archive_effect
        \<lparr>messages = [\<lparr>msg_type = ''ai'', content = ''answer'', msg_id = Some ''m1''\<rparr>],
         isLoading = False\<rparr>
        \<lparr>processedEventsTimeline = [\<lparr>title = ''A'', data = ''a''\<rparr>, \<lparr>title = ''B'', data = ''b''\<rparr>],
         historicalActivities = Map.empty,
         hasFinalizeEventOccurredRef = True\<rparr>)
   = [\<lparr>title = ''A'', data = ''a''\<rparr>, \<lparr>title = ''B'', data = ''b''\<rparr>]
   \<and> processedEventsTimeline
     (archive_effect
        \<lparr>messages = [\<lparr>msg_type = ''ai'', content = ''answer'', msg_id = Some ''m1''\<rparr>],
         isLoading = False\<rparr>
        \<lparr>processedEventsTimeline = [\<lparr>title = ''A'', data = ''a''\<rparr>, \<lparr>title = ''B'', data = ''b''\<rparr>],
         historicalActivities = Map.empty,
         hasFinalizeEventOccurredRef = True\<rparr>) \<noteq> []"
  by (simp add: archive_effect_def)

text \<open>
  C1, amended: for every state with the ref set, loading false and a last message of
  type \<open>ai\<close> with a non-empty id, the effect stores the timeline in the archive under
  that id, leaves the other entries of the archive and the timeline itself unchanged,
  and clears the ref.
\<close>

theorem archive_success:
  assumes "hasFinalizeEventOccurredRef st" and "\<not> isLoading th" and "messages th \<noteq> []"
    and "msg_type (last (messages th)) = ''ai''"
    and "msg_id (last (messages th)) = Some i" and "i \<noteq> []"
  shows "historicalActivities (archive_effect th st) i = Some (processedEventsTimeline st)
         \<and> (\<forall>k. k \<noteq> i \<longrightarrow> historicalActivities (archive_effect th st) k = historicalActivities st k)
         \<and> processedEventsTimeline (archive_effect th st) = processedEventsTimeline st
         \<and> hasFinalizeEventOccurredRef (archive_effect th st) = False"
  by (simp add: archive_effect_archives [OF assms])

text \<open>C1, amended, at the timeline \<open>[A, B]\<close> and an agent message \<open>m1\<close>.\<close>

theorem archive_success_witness:
  "historicalActivities
     (archive_effect
        \<lparr>messages = [\<lparr>msg_type = ''human'', content = ''question'', msg_id = Some ''17''\<rparr>,
                     \<lparr>msg_type = ''ai'', content = ''answer'', msg_id = Some ''m1''\<rparr>],
         isLoading = False\<rparr>
        \<lparr>processedEventsTimeline = [\<lparr>title = ''A'', data = ''a''\<rparr>, \<lparr>title = ''B'', data = ''b''\<rparr>],
         historicalActivities = Map.empty,
         hasFinalizeEventOccurredRef = True\<rparr>) ''m1''
   = Some [\<lparr>title = ''A'', data = ''a''\<rparr>, \<lparr>title = ''B'', data = ''b''\<rparr>]
   \<and> \<not> hasFinalizeEventOccurredRef
     (archive_effect
        \<lparr>messages = [\<lparr>msg_type = ''human'', content = ''question'', msg_id = Some ''17''\<rparr>,
                     \<lparr>msg_type = ''ai'', content = ''answer'', msg_id = Some ''m1''\<rparr>],
         isLoading = False\<rparr>
        \<lparr>processedEventsTimeline = [\<lparr>title = ''A'', data = ''a''\<rparr>, \<lparr>title = ''B'', data = ''b''\<rparr>],
         historicalActivities = Map.empty,
         hasFinalizeEventOccurredRef = True\<rparr>)"
  using archive_success [of
      "\<lparr>processedEventsTimeline = [\<lparr>title = ''A'', data = ''a''\<rparr>, \<lparr>title = ''B'', data = ''b''\<rparr>],
        historicalActivities = Map.empty, hasFinalizeEventOccurredRef = True\<rparr>"
      "\<lparr>messages = [\<lparr>msg_type = ''human'', content = ''question'', msg_id = Some ''17''\<rparr>,
                     \<lparr>msg_type = ''ai'', content = ''answer'', msg_id = Some ''m1''\<rparr>],
         isLoading = False\<rparr>" "''m1''"]
  by simp

text \<open>
  C2, as stated, fails: with the ref set, loading over and a user message last, the
  effect clears the ref. Line 183 is outside the test of the last message.
\<close>

theorem archive_skipped_counterexample:
  "hasFinalizeEventOccurredRef
     (archive_effect
        \<lparr>messages = [\<lparr>msg_type = ''human'', content = ''question'', msg_id = Some ''17''\<rparr>],
         isLoading = False\<rparr>
        \<lparr>processedEventsTimeline = [\<lparr>title = ''A'', data = ''a''\<rparr>],
         historicalActivities = Map.empty,
         hasFinalizeEventOccurredRef = True\<rparr>) = False"
  by (simp add: archive_effect_def)

text \<open>
  C2, amended: for every state with the ref set, loading false and a last message that
  is not of type \<open>ai\<close> or has no (or an empty) id, the effect writes nothing to the
  archive, leaves the timeline unchanged, and clears the ref.
\<close>

theorem archive_skipped:
  assumes "hasFinalizeEventOccurredRef st" and "\<not> isLoading th" and "messages th \<noteq> []"
    and "msg_type (last (messages th)) \<noteq> ''ai'' \<or> msg_id (last (messages th)) = None
         \<or> msg_id (last (messages th)) = Some []"
  shows "historicalActivities (archive_effect th st) = historicalActivities st
         \<and> processedEventsTimeline (archive_effect th st) = processedEventsTimeline st
         \<and> hasFinalizeEventOccurredRef (archive_effect th st) = False"
  using assms by (auto simp: archive_effect_def Let_def split: option.splits)

text \<open>C2, amended, at an agent message without id.\<close>

theorem archive_skipped_witness:
  "historicalActivities
     (archive_effect
        \<lparr>messages = [\<lparr>msg_type = ''ai'', content = ''answer'', msg_id = None\<rparr>],
         isLoading = False\<rparr>
        \<lparr>processedEventsTimeline = [\<lparr>title = ''A'', data = ''a''\<rparr>],
         historicalActivities = Map.empty,
         hasFinalizeEventOccurredRef = True\<rparr>) = Map.empty
   \<and> \<not> hasFinalizeEventOccurredRef
     (archive_effect
        \<lparr>messages = [\<lparr>msg_type = ''ai'', content = ''answer'', msg_id = None\<rparr>],
         isLoading = False\<rparr>
        \<lparr>processedEventsTimeline = [\<lparr>title = ''A'', data = ''a''\<rparr>],
         historicalActivities = Map.empty,
         hasFinalizeEventOccurredRef = True\<rparr>)"
  using archive_skipped [of
      "\<lparr>processedEventsTimeline = [\<lparr>title = ''A'', data = ''a''\<rparr>],
        historicalActivities = Map.empty, hasFinalizeEventOccurredRef = True\<rparr>"
      "\<lparr>messages = [\<lparr>msg_type = ''ai'', content = ''answer'', msg_id = None\<rparr>],
         isLoading = False\<rparr>"]
  by simp

subsection \<open>handleSubmit\<close>

text \<open>
  C8: for an input that is not empty after trimming, the handler empties the timeline,
  clears the ref, and then submits the thread's messages followed by one new message of
  type \<open>human\<close> (the input as typed, the id the decimal digits of the clock reading),
  with the configuration, where a missing \<open>enable_thinking\<close> is \<open>false\<close>; whatever the
  state was, the timeline is empty and the ref is clear afterwards. For an input that is
  empty after trimming the handler does nothing.
\<close>

theorem submit_effects:
  "(trim input \<noteq> [] \<longrightarrow>
      handleSubmit now th input config =
        [SetProcessedEventsTimeline [],
         SetHasFinalizeEventOccurred False,
         ThreadSubmit
           (messages th @ [\<lparr>msg_type = ''human'', content = input, msg_id = Some (decimal now)\<rparr>])
           \<lparr>cfg_query_generator_model = query_generator_model config,
            cfg_reflection_model = reflection_model config,
            cfg_answer_model = answer_model config,
            cfg_number_of_initial_queries = number_of_initial_queries config,
            cfg_max_research_loops = max_research_loops config,
            cfg_enable_thinking = (enable_thinking config = Some True)\<rparr>]
      \<and> run_effects (handleSubmit now th input config) (st, sent) =
            (st\<lparr>processedEventsTimeline := [], hasFinalizeEventOccurredRef := False\<rparr>,
             sent @
             [(messages th @
                 [\<lparr>msg_type = ''human'', content = input, msg_id = Some (decimal now)\<rparr>],
               \<lparr>cfg_query_generator_model = query_generator_model config,
                cfg_reflection_model = reflection_model config,
                cfg_answer_model = answer_model config,
                cfg_number_of_initial_queries = number_of_initial_queries config,
                cfg_max_research_loops = max_research_loops config,
                cfg_enable_thinking = (enable_thinking config = Some True)\<rparr>)]))
   \<and> (trim input = [] \<longrightarrow>
        handleSubmit now th input config = []
        \<and> run_effects (handleSubmit now th input config) (st, sent) = (st, sent))"
  by (cases "enable_thinking config")
     (auto simp: handleSubmit_def run_effects_def Let_def)

text \<open>C8 at an input with surrounding blanks and at a blank input.\<close>

theorem submit_effects_witness:
  "handleSubmit 1700000000000
     \<lparr>messages = [\<lparr>msg_type = ''ai'', content = ''answer'', msg_id = Some ''m1''\<rparr>],
      isLoading = False\<rparr>
     ''  next question ''
     \<lparr>query_generator_model = ''g1'', reflection_model = ''g2'', answer_model = ''g3'',
      number_of_initial_queries = 3, max_research_loops = 3, enable_thinking = None\<rparr>
   = [SetProcessedEventsTimeline [],
      SetHasFinalizeEventOccurred False,
      ThreadSubmit
        [\<lparr>msg_type = ''ai'', content = ''answer'', msg_id = Some ''m1''\<rparr>,
         \<lparr>msg_type = ''human'', content = ''  next question '', msg_id = Some ''1700000000000''\<rparr>]
        \<lparr>cfg_query_generator_model = ''g1'', cfg_reflection_model = ''g2'',
         cfg_answer_model = ''g3'', cfg_number_of_initial_queries = 3,
         cfg_max_research_loops = 3, cfg_enable_thinking = False\<rparr>]
   \<and> handleSubmit 1700000000000
     \<lparr>messages = [\<lparr>msg_type = ''ai'', content = ''answer'', msg_id = Some ''m1''\<rparr>],
      isLoading = False\<rparr>
     ''   ''
     \<lparr>query_generator_model = ''g1'', reflection_model = ''g2'', answer_model = ''g3'',
      number_of_initial_queries = 3, max_research_loops = 3, enable_thinking = None\<rparr>
   = []"
proof -
  let ?th = "\<lparr>messages = [\<lparr>msg_type = ''ai'', content = ''answer'', msg_id = Some ''m1''\<rparr>],
      isLoading = False\<rparr>"
  let ?cfg = "\<lparr>query_generator_model = ''g1'', reflection_model = ''g2'', answer_model = ''g3'',
      number_of_initial_queries = 3, max_research_loops = 3, enable_thinking = None\<rparr>"
  have t1: "trim ''  next question '' \<noteq> []"
    by (simp add: trim_def js_whitespace_def)
  have t2: "trim ''   '' = []"
    by (simp add: trim_def js_whitespace_def)
  have d: "decimal 1700000000000 = ''1700000000000''"
    by (simp add: decimal.simps)
  show ?thesis
    using submit_effects [where input = "''  next question ''" and now = 1700000000000
        and th = ?th and config = ?cfg]
      submit_effects [where input = "''   ''" and now = 1700000000000 and th = ?th and config = ?cfg]
      t1 t2 d
    by simp
qed

subsection \<open>Order of the timeline and of the archive\<close>

text \<open>
  C9: after a sequence of events the timeline is what it was, followed by the
  activities of the events in the order of arrival, one entry for each recognised event
  (repeated events give repeated entries); and when the effect archives the run, the
  archived list is that same list.
\<close>

theorem timeline_order_round_trip:
  assumes "deliver events st = Inr st'"
  shows "processedEventsTimeline st' =
           processedEventsTimeline st @ concat (map classified events)
       \<and> (hasFinalizeEventOccurredRef st' \<and> \<not> isLoading th \<and> messages th \<noteq> [] \<and>
          msg_type (last (messages th)) = ''ai'' \<and>
          msg_id (last (messages th)) = Some i \<and> i \<noteq> []
          \<longrightarrow> historicalActivities (archive_effect th st') i =
                Some (processedEventsTimeline st @ concat (map classified events)))"
  using deliver_timeline [OF assms]
  by (auto simp: archive_effect_archives)

text \<open>
  C9 at a run in which the same start event arrives twice, with an unrecognised event
  between, before the finalize event.
\<close>

theorem timeline_order_round_trip_witness:
  "deliver
     [JObj [(''event'', JStr ''on_chain_start''), (''name'', JStr ''web_research''),
            (''data'', JObj [(''input'', JObj [])])],
      JObj [(''unknown'', JNum ''1'')],
      JObj [(''event'', JStr ''on_chain_start''), (''name'', JStr ''web_research''),
            (''data'', JObj [(''input'', JObj [])])],
      JObj [(''event'', JStr ''on_chain_start''), (''name'', JStr ''finalize_answer'')]]
     \<lparr>processedEventsTimeline = [], historicalActivities = Map.empty,
      hasFinalizeEventOccurredRef = False\<rparr>
   = Inr \<lparr>processedEventsTimeline =
            [\<lparr>title = ''Web Research'', data = ''Searching the web...''\<rparr>,
             \<lparr>title = ''Web Research'', data = ''Searching the web...''\<rparr>,
             \<lparr>title = ''Finalizing Answer'', data = ''Composing and presenting the final answer.''\<rparr>],
          historicalActivities = Map.empty,
          hasFinalizeEventOccurredRef = True\<rparr>
   \<and> historicalActivities
       (archive_effect
          \<lparr>messages = [\<lparr>msg_type = ''ai'', content = ''answer'', msg_id = Some ''m1''\<rparr>],
           isLoading = False\<rparr>
          \<lparr>processedEventsTimeline =
            [\<lparr>title = ''Web Research'', data = ''Searching the web...''\<rparr>,
             \<lparr>title = ''Web Research'', data = ''Searching the web...''\<rparr>,
             \<lparr>title = ''Finalizing Answer'', data = ''Composing and presenting the final answer.''\<rparr>],
          historicalActivities = Map.empty,
          hasFinalizeEventOccurredRef = True\<rparr>) ''m1''
     = Some [\<lparr>title = ''Web Research'', data = ''Searching the web...''\<rparr>,
             \<lparr>title = ''Web Research'', data = ''Searching the web...''\<rparr>,
             \<lparr>title = ''Finalizing Answer'', data = ''Composing and presenting the final answer.''\<rparr>]"
proof -
  let ?web = "JObj [(''event'', JStr ''on_chain_start''), (''name'', JStr ''web_research''),
            (''data'', JObj [(''input'', JObj [])])]"
  let ?unk = "JObj [(''unknown'', JNum ''1'')]"
  let ?fin = "JObj [(''event'', JStr ''on_chain_start''), (''name'', JStr ''finalize_answer'')]"
  let ?st = "\<lparr>processedEventsTimeline = [], historicalActivities = Map.empty,
      hasFinalizeEventOccurredRef = False\<rparr>"
  let ?tl = "[\<lparr>title = ''Web Research'', data = ''Searching the web...''\<rparr>,
             \<lparr>title = ''Web Research'', data = ''Searching the web...''\<rparr>,
             \<lparr>title = ''Finalizing Answer'', data = ''Composing and presenting the final answer.''\<rparr>]"
  let ?st' = "\<lparr>processedEventsTimeline = ?tl, historicalActivities = Map.empty,
          hasFinalizeEventOccurredRef = True\<rparr>"
  let ?th = "\<lparr>messages = [\<lparr>msg_type = ''ai'', content = ''answer'', msg_id = Some ''m1''\<rparr>],
           isLoading = False\<rparr>"
  have w: "classify ?web = Inr (Some \<lparr>title = ''Web Research'', data = ''Searching the web...''\<rparr>, False)"
    by (simp add: classify_def traced_form_def nullish_def js_or_def activity_def)
  have u: "classify ?unk = Inr (None, False)"
    by (simp add: classify_def traced_form_def flattened_form_def nullish_def js_or_def)
  have f: "classify ?fin = Inr (Some \<lparr>title = ''Finalizing Answer'', data = ''Composing and presenting the final answer.''\<rparr>, True)"
    by (simp add: classify_def traced_form_def nullish_def js_or_def)
  have d: "deliver [?web, ?unk, ?web, ?fin] ?st = Inr ?st'"
    by (simp add: onUpdateEvent_def w u f)
  show ?thesis
    using timeline_order_round_trip [OF d, where th = ?th and i = "''m1''"] d
    by (simp add: classified_def w u f)
qed

end
